theory Spec2Isabelle
  imports Main "HOL-Library.Sublist"
begin

section \<open>DDWrap: a shallow embedding of \<open>ddwrap.py\<close>\<close>

text \<open>
  The program is a Qt front end for \<open>dd\<close>. Its handlers are modelled as functions from
  the answers of the outside world (an \<open>env\<close> record: file system, probes, external tools,
  the operator's reply) and the widget state (a \<open>DDGui\<close> record) to the list of
  observable actions the handler performs, in program order, and the new widget state.
  An exception that leaves a handler is a value of the result.
\<close>

subsection \<open>Strings\<close>

text \<open>
  A Python \<open>str\<close> is modelled as a \<open>string\<close> whose characters are the code points
  below 256. \<open>py_isspace\<close> is \<open>str.isspace\<close> on those code points: U+0009 to U+000D,
  U+001C to U+0020, U+0085 and U+00A0.
\<close>

definition py_isspace :: "char \<Rightarrow> bool" where
  "py_isspace c =
     (let n = (of_char c :: nat)
      in (9 \<le> n \<and> n \<le> 13) \<or> (28 \<le> n \<and> n \<le> 32) \<or> n = 133 \<or> n = 160)"

text \<open>\<open>s.strip()\<close>: leading and trailing whitespace removed.\<close>

definition strip :: "string \<Rightarrow> string" where
  "strip s = rev (dropWhile py_isspace (rev (dropWhile py_isspace s)))"

text \<open>\<open>sub in s\<close> on strings: \<open>sub\<close> occurs in \<open>s\<close> as a contiguous run.\<close>

fun py_in :: "string \<Rightarrow> string \<Rightarrow> bool" where
  "py_in sub [] = (sub = [])"
| "py_in sub (c # cs) = (prefix sub (c # cs) \<or> py_in sub cs)"

text \<open>\<open>sep.join(xs)\<close>.\<close>

fun join :: "string \<Rightarrow> string list \<Rightarrow> string" where
  "join sep [] = []"
| "join sep [x] = x"
| "join sep (x # y # ys) = x @ sep @ join sep (y # ys)"

subsection \<open>Exceptions and the outside world\<close>

text \<open>
  The exceptions the operating-system calls of the program raise are \<open>OSError\<close>s;
  the program tells \<open>PermissionError\<close> from every other \<open>OSError\<close>.
\<close>

datatype py_exc = PermissionError | OSError

datatype open_flag = O_WRONLY | O_EXCL

text \<open>
  The values a message box returns: one of its buttons, \<open>NoButton\<close> otherwise.
\<close>

datatype StandardButton = Ok | Cancel | NoButton

text \<open>
  \<open>subprocess.Popen(cmd, stderr=PIPE, text=True)\<close> either raises or gives a process:
  the lines the text stream of its standard error yields (each with its line end),
  whether reading the stream after those lines raises \<open>UnicodeDecodeError\<close> (bytes
  the strict decoder of the text stream refuses) instead of reaching its end, and the
  exit status \<open>process.wait()\<close> collects.
\<close>

record process =
  stderr_lines :: "string list"
  decode_error :: bool
  returncode :: int

record env =
  geteuid :: nat
  which :: "string \<Rightarrow> string option"
  path_exists :: "string \<Rightarrow> bool"
  os_open :: "string \<Rightarrow> open_flag list \<Rightarrow> py_exc + nat"
  os_close :: "nat \<Rightarrow> py_exc option"
  subprocess_run :: "string list \<Rightarrow> py_exc + string"
  warning_reply :: "string \<Rightarrow> StandardButton"
  popen :: "string list \<Rightarrow> py_exc + process"

subsection \<open>Privilege helpers\<close>

definition is_root :: "env \<Rightarrow> bool" where
  "is_root e = (geteuid e = 0)"

definition has_sudo :: "env \<Rightarrow> bool" where
  "has_sudo e = (which e ''sudo'' \<noteq> None)"

definition has_doas :: "env \<Rightarrow> bool" where
  "has_doas e = (which e ''doas'' \<noteq> None)"

definition has_pkexec :: "env \<Rightarrow> bool" where
  "has_pkexec e = (which e ''pkexec'' \<noteq> None)"

subsection \<open>Worker thread\<close>

text \<open>
  What \<open>DDWorker.run\<close> does, in order: the \<open>Popen\<close> call (with the argument list it was
  given and no \<open>shell\<close> argument, so \<open>shell=False\<close>), one \<open>progress\<close> signal for each
  line of the standard error that contains \<open>bytes\<close>, the \<open>wait\<close> that collects the exit
  status, and the \<open>finished\<close> signal. A \<open>Popen\<close> that raises ends the thread there.
  So does a read of the standard error that raises \<open>UnicodeDecodeError\<close>: the lines
  read before it have been handled, and neither the \<open>wait\<close> nor the \<open>finished\<close>
  signal follows.
\<close>

datatype worker_event =
    Popen "string list" bool
  | EmitProgress string
  | Wait int
  | EmitFinished
  | Raised py_exc
  | RaisedUnicodeDecodeError

definition DDWorker_run :: "env \<Rightarrow> string list \<Rightarrow> worker_event list" where
  "DDWorker_run e cmd =
     (case popen e cmd of
        Inl exc \<Rightarrow> [Popen cmd False, Raised exc]
      | Inr p \<Rightarrow>
          Popen cmd False
          # map (\<lambda>line. EmitProgress (strip line))
                (filter (\<lambda>line. py_in ''bytes'' line) (stderr_lines p))
          @ (if decode_error p then [RaisedUnicodeDecodeError]
             else [Wait (returncode p), EmitFinished]))"

subsection \<open>Widget state\<close>

text \<open>
  \<open>int(text)\<close> on a string of code points below 256: surrounding whitespace is
  dropped, then an optional sign, then decimal digits, single underscores allowed between
  digits; \<open>None\<close> is \<open>ValueError\<close>. CPython from 3.11 on also raises \<open>ValueError\<close>
  when the text has more than 4300 digits (the default of \<open>sys.int_max_str_digits\<close>).
\<close>

definition is_digit :: "char \<Rightarrow> bool" where
  "is_digit c = (48 \<le> (of_char c :: nat) \<and> (of_char c :: nat) \<le> 57)"

fun valid_digits :: "string \<Rightarrow> bool" where
  "valid_digits [] = False"
| "valid_digits [c] = is_digit c"
| "valid_digits (c # d # cs) =
     (is_digit c \<and> (if d = CHR ''_'' then valid_digits cs else valid_digits (d # cs)))"

definition int_max_str_digits :: nat where
  "int_max_str_digits = 4300"

definition within_digit_limit :: "string \<Rightarrow> bool" where
  "within_digit_limit ds = (length (filter is_digit ds) \<le> int_max_str_digits)"

definition parse_digits :: "string \<Rightarrow> int option" where
  "parse_digits ds =
     (if valid_digits ds \<and> within_digit_limit ds
      then Some (foldl (\<lambda>a c. 10 * a + (int (of_char c) - 48)) 0 (filter is_digit ds))
      else None)"

definition py_int :: "string \<Rightarrow> int option" where
  "py_int text =
     (case strip text of
        [] \<Rightarrow> None
      | c # cs \<Rightarrow>
          if c = CHR ''-'' then map_option uminus (parse_digits cs)
          else if c = CHR ''+'' then parse_digits cs
          else parse_digits (c # cs))"

text \<open>
  A size label shows \<open>N/A\<close> or \<open>human_readable\<close> of a byte count; the floating-point
  formatting of \<open>human_readable\<close> is not modelled, the label keeps the byte count.
\<close>

datatype size_label = NotAvailable | Readable int

text \<open>
  The fields of \<open>DDGui\<close> and the contents of its widgets: the current text of the line
  edit and of the combo boxes, the paragraphs appended to the progress display, the label
  texts, the check marks and whether the two buttons are enabled. \<open>worker\<close> is the command
  of the \<open>DDWorker\<close> last stored in \<open>self.worker\<close>.
\<close>

record DDGui =
  image_size_bytes :: int
  last_bytes :: int
  last_update_time :: int
  input_edit :: string
  file_size_label :: size_label
  bs_combo :: string
  progress_display :: "string list"
  eta_label :: string
  dev_size_label :: size_label
  dev_combo :: string
  unmount_btn_enabled :: bool
  sync_checkbox :: bool
  progress_checkbox :: bool
  start_btn_enabled :: bool
  worker :: "string list option"

text \<open>
  What a handler does that can be observed from outside, in program order: message
  boxes (the warning box with its buttons and its default button), the \<open>os.open\<close> and
  \<open>os.close\<close> calls, the external tools run with \<open>subprocess.run\<close>, and the start of
  a worker thread for a command.
\<close>

datatype effect =
    MsgCritical string string
  | MsgInformation string string
  | MsgWarning string string "StandardButton list" StandardButton
  | OsOpen string "open_flag list"
  | OsClose nat
  | SubprocessRun "string list"
  | WorkerStart "string list"

record result =
  effects :: "effect list"
  raised :: "py_exc option"
  gui :: DDGui

abbreviation NL :: char where
  "NL \<equiv> CHR 0x0A"

subsection \<open>Devices\<close>

definition get_mounted_partitions :: "env \<Rightarrow> string \<Rightarrow> py_exc + bool" where
  "get_mounted_partitions e device =
     (case subprocess_run e [''lsblk'', ''-n'', ''-o'', ''MOUNTPOINT'', device] of
        Inl exc \<Rightarrow> Inl exc
      | Inr out \<Rightarrow> Inr (strip out \<noteq> []))"

definition get_lsblk_info :: "env \<Rightarrow> string \<Rightarrow> py_exc + string" where
  "get_lsblk_info e device =
     (case subprocess_run e [''lsblk'', device] of
        Inl exc \<Rightarrow> Inl exc
      | Inr out \<Rightarrow> Inr (strip out))"

definition get_smart_info :: "env \<Rightarrow> string \<Rightarrow> py_exc + string option" where
  "get_smart_info e device =
     (if which e ''smartctl'' = None then Inr None
      else case subprocess_run e [''smartctl'', ''-i'', device] of
             Inl exc \<Rightarrow> Inl exc
           | Inr out \<Rightarrow> Inr (Some (strip out)))"

definition update_dev_capacity :: "env \<Rightarrow> DDGui \<Rightarrow> result" where
  "update_dev_capacity e s =
     (let device = strip (dev_combo s) in
      if device = [] then \<lparr>effects = [], raised = None, gui = s\<rparr>
      else
        let size_cmd = [''lsblk'', ''-b'', ''-dn'', ''-o'', ''SIZE'', device];
            mount_cmd = [''lsblk'', ''-n'', ''-o'', ''MOUNTPOINT'', device];
            s1 = s\<lparr>dev_size_label :=
                     (case subprocess_run e size_cmd of
                        Inl exc \<Rightarrow> NotAvailable
                      | Inr out \<Rightarrow>
                          (case py_int (strip out) of
                             None \<Rightarrow> NotAvailable
                           | Some size_bytes \<Rightarrow> Readable size_bytes))\<rparr>
        in case get_mounted_partitions e device of
             Inl exc \<Rightarrow>
               \<lparr>effects = [SubprocessRun size_cmd, SubprocessRun mount_cmd],
                raised = Some exc, gui = s1\<rparr>
           | Inr mounts \<Rightarrow>
               \<lparr>effects = [SubprocessRun size_cmd, SubprocessRun mount_cmd],
                raised = None,
                gui = s1\<lparr>start_btn_enabled := \<not> mounts, unmount_btn_enabled := mounts\<rparr>\<rparr>)"

text \<open>
  \<open>dev_combo.currentTextChanged\<close> is connected to \<open>update_dev_capacity\<close>: a change of
  the selection to \<open>text\<close> runs the handler on the new current text.
\<close>

definition on_currentTextChanged :: "env \<Rightarrow> string \<Rightarrow> DDGui \<Rightarrow> result" where
  "on_currentTextChanged e text s = update_dev_capacity e (s\<lparr>dev_combo := text\<rparr>)"

definition unmount_device :: "env \<Rightarrow> DDGui \<Rightarrow> result" where
  "unmount_device e s =
     (let device = strip (dev_combo s);
          umount_cmd = [''sudo'', ''umount'', device @ ''*'']
      in case subprocess_run e umount_cmd of
           Inl exc \<Rightarrow> \<lparr>effects = [SubprocessRun umount_cmd], raised = Some exc, gui = s\<rparr>
         | Inr out \<Rightarrow>
             (let r = update_dev_capacity e s
              in r\<lparr>effects :=
                     [SubprocessRun umount_cmd,
                      MsgInformation ''Unmount'' (device @ '' unmounted.'')] @ effects r\<rparr>))"

subsection \<open>Confirm destructive write\<close>

definition confirm_message :: "string \<Rightarrow> string \<Rightarrow> string \<Rightarrow> string option \<Rightarrow> string" where
  "confirm_message device img lsblk_info smart_info =
     (let smart_text =
            (case smart_info of
               None \<Rightarrow> []
             | Some info \<Rightarrow> if info \<noteq> [] then NL # ''SMART Info:'' @ NL # info else [])
      in ''WARNING: DESTRUCTIVE OPERATION'' @ [NL, NL]
         @ ''Target device: '' @ device @ [NL, NL]
         @ ''Partition layout:'' @ NL # lsblk_info
         @ smart_text @ [NL, NL]
         @ ''Image: '' @ img @ [NL, NL]
         @ ''Click OK to continue.'')"

definition confirm_destructive_write ::
  "env \<Rightarrow> string \<Rightarrow> string \<Rightarrow> effect list \<times> (py_exc + bool)" where
  "confirm_destructive_write e device img =
     (case get_lsblk_info e device of
        Inl exc \<Rightarrow> ([SubprocessRun [''lsblk'', device]], Inl exc)
      | Inr lsblk_info \<Rightarrow>
          (let smart_run =
                 (if which e ''smartctl'' = None then []
                  else [SubprocessRun [''smartctl'', ''-i'', device]])
           in case get_smart_info e device of
                Inl exc \<Rightarrow> (SubprocessRun [''lsblk'', device] # smart_run, Inl exc)
              | Inr smart_info \<Rightarrow>
                  (let message = confirm_message device img lsblk_info smart_info;
                       reply = warning_reply e message
                   in (SubprocessRun [''lsblk'', device] # smart_run
                         @ [MsgWarning ''Confirm Disk Write'' message [Ok, Cancel] Cancel],
                       Inr (reply = Ok)))))"

subsection \<open>Start dd\<close>

text \<open>
  The \<open>try\<close> block of \<open>start_dd\<close>: \<open>os.open\<close> with \<open>O_WRONLY | O_EXCL\<close>, then
  \<open>os.close\<close>; the exception either of them raises, if any.
\<close>

definition exclusive_open :: "env \<Rightarrow> string \<Rightarrow> effect list \<times> py_exc option" where
  "exclusive_open e ofile =
     (case os_open e ofile [O_WRONLY, O_EXCL] of
        Inl exc \<Rightarrow> ([OsOpen ofile [O_WRONLY, O_EXCL]], Some exc)
      | Inr fd \<Rightarrow> ([OsOpen ofile [O_WRONLY, O_EXCL], OsClose fd], os_close e fd))"

text \<open>The command list as \<open>start_dd\<close> has it before the privilege prefix.\<close>

definition dd_cmd :: "string \<Rightarrow> string \<Rightarrow> DDGui \<Rightarrow> string list" where
  "dd_cmd infile ofile s =
     [''dd'', ''if='' @ infile, ''of='' @ ofile, ''bs='' @ bs_combo s]
     @ (if sync_checkbox s then [''oflag=sync''] else [])
     @ (if progress_checkbox s then [''status=progress''] else [])"

text \<open>
  The privilege branch of \<open>start_dd\<close>: the command with its prefix, or \<open>None\<close> where the
  source shows the \<open>Privileges\<close> box and returns.
\<close>

definition with_privilege :: "env \<Rightarrow> string list \<Rightarrow> string list option" where
  "with_privilege e cmd =
     (if \<not> is_root e then
        (if has_sudo e then Some (''sudo'' # cmd)
         else if has_doas e then Some (''doas'' # cmd)
         else if has_pkexec e then Some (''pkexec'' # cmd)
         else None)
      else Some cmd)"

definition start_dd :: "env \<Rightarrow> DDGui \<Rightarrow> result" where
  "start_dd e s =
     (let infile = strip (input_edit s);
          ofile = strip (dev_combo s)
      in if \<not> path_exists e infile then
           \<lparr>effects = [MsgCritical ''Error'' ''Invalid input file.''],
            raised = None, gui = s\<rparr>
         else
           case exclusive_open e ofile of
             (probe, Some PermissionError) \<Rightarrow>
               \<lparr>effects = probe @ [MsgCritical ''Permission Error'' ''Requires root privileges.''],
                raised = None, gui = s\<rparr>
           | (probe, Some OSError) \<Rightarrow>
               \<lparr>effects = probe @ [MsgCritical ''Device Busy''
                                     ''Target device is mounted or in use.''],
                raised = None, gui = s\<rparr>
           | (probe, None) \<Rightarrow>
               (case confirm_destructive_write e ofile infile of
                  (dialog, Inl exc) \<Rightarrow>
                    \<lparr>effects = probe @ dialog, raised = Some exc, gui = s\<rparr>
                | (dialog, Inr False) \<Rightarrow>
                    \<lparr>effects = probe @ dialog, raised = None, gui = s\<rparr>
                | (dialog, Inr True) \<Rightarrow>
                    (case with_privilege e (dd_cmd infile ofile s) of
                       None \<Rightarrow>
                         \<lparr>effects = probe @ dialog
                              @ [MsgCritical ''Privileges''
                                   ''Run as root or install sudo/doas.''],
                          raised = None, gui = s\<rparr>
                     | Some cmd \<Rightarrow>
                         \<lparr>effects = probe @ dialog @ [WorkerStart cmd],
                          raised = None,
                          gui = s\<lparr>progress_display :=
                                    progress_display s
                                    @ [''Running: '' @ join '' '' cmd @ [NL]],
                                  worker := Some cmd\<rparr>\<rparr>)))"

subsection \<open>Progress update and completion\<close>

definition update_progress :: "string \<Rightarrow> DDGui \<Rightarrow> result" where
  "update_progress text s =
     \<lparr>effects = [], raised = None,
      gui = s\<lparr>progress_display := progress_display s @ [text]\<rparr>\<rparr>"

definition dd_finished :: "DDGui \<Rightarrow> result" where
  "dd_finished s =
     \<lparr>effects = [MsgInformation ''Done'' ''DD completed successfully.''],
      raised = None, gui = s\<rparr>"

text \<open>
  \<open>start_dd\<close> connects the worker's \<open>progress\<close> signal to \<open>update_progress\<close> and its
  \<open>finished\<close> signal to \<open>dd_finished\<close>; the other steps of the worker reach no handler.
\<close>

fun deliver :: "worker_event \<Rightarrow> DDGui \<Rightarrow> result" where
  "deliver (EmitProgress text) s = update_progress text s"
| "deliver EmitFinished s = dd_finished s"
| "deliver _ s = \<lparr>effects = [], raised = None, gui = s\<rparr>"

text \<open>The signals of one run of the worker, delivered in the order they were emitted.\<close>

fun deliver_all :: "worker_event list \<Rightarrow> DDGui \<Rightarrow> effect list \<times> DDGui" where
  "deliver_all [] s = ([], s)"
| "deliver_all (ev # evs) s =
     (let r = deliver ev s;
          (effs, s') = deliver_all evs (gui r)
      in (effects r @ effs, s'))"

text \<open>
  \<open>start_btn.clicked\<close> is connected to \<open>start_dd\<close>; a disabled button gives no click.
\<close>

definition click_start :: "env \<Rightarrow> DDGui \<Rightarrow> result" where
  "click_start e s =
     (if start_btn_enabled s then start_dd e s
      else \<lparr>effects = [], raised = None, gui = s\<rparr>)"

subsection \<open>Reading a list of effects\<close>

fun is_spawn :: "effect \<Rightarrow> bool" where
  "is_spawn (WorkerStart cmd) = True"
| "is_spawn _ = False"

fun is_confirmation :: "effect \<Rightarrow> bool" where
  "is_confirmation (MsgWarning title message buttons default_button) = True"
| "is_confirmation _ = False"

fun is_exclusive_open :: "effect \<Rightarrow> bool" where
  "is_exclusive_open (OsOpen path flags) = (O_EXCL \<in> set flags)"
| "is_exclusive_open _ = False"

text \<open>
  The effects of a commit that lie after its confirmation box and before its spawn, and
  whether an exclusive open is among them.
\<close>

definition between_confirmation_and_spawn :: "effect list \<Rightarrow> effect list" where
  "between_confirmation_and_spawn effs =
     takeWhile (\<lambda>x. \<not> is_spawn x) (drop 1 (dropWhile (\<lambda>x. \<not> is_confirmation x) effs))"

definition probe_after_confirmation :: "effect list \<Rightarrow> bool" where
  "probe_after_confirmation effs =
     list_ex is_exclusive_open (between_confirmation_and_spawn effs)"

subsection \<open>Concrete worlds and states\<close>

text \<open>
  The state \<open>__init__\<close> builds before it lists the devices, and the same state with an
  image of 1 GiB chosen and the device \<open>/dev/sdb\<close> selected.
\<close>

definition init_gui :: DDGui where
  "init_gui =
     \<lparr>image_size_bytes = 0, last_bytes = 0, last_update_time = 0,
      input_edit = [], file_size_label = NotAvailable, bs_combo = ''512k'',
      progress_display = [], eta_label = ''Progress: 0% - ETA: N/A'',
      dev_size_label = NotAvailable, dev_combo = [],
      unmount_btn_enabled = True, sync_checkbox = True, progress_checkbox = True,
      start_btn_enabled = True, worker = None\<rparr>"

definition gui_sdb :: DDGui where
  "gui_sdb =
     init_gui\<lparr>input_edit := ''/home/u/disk.img'', image_size_bytes := 1073741824,
              file_size_label := Readable 1073741824, dev_combo := ''/dev/sdb''\<rparr>"

text \<open>
  A world with an unprivileged user, \<open>pkexec\<close> as the only escalator, no \<open>smartctl\<close>,
  the image present, \<open>/dev/sdb\<close> free and unmounted, and an operator who clicks OK.
  Its \<open>dd\<close> reports half of the image and exits with status 0.
\<close>

definition progress_line :: string where
  "progress_line = ''536870912 bytes (537 MB, 512 MiB) copied, 2 s, 268 MB/s''"

definition lsblk_sdb :: string where
  "lsblk_sdb = ''sdb 8:16 1 2G 0 disk'' @ [NL]"

definition env_pkexec :: env where
  "env_pkexec =
     \<lparr>geteuid = 1000,
      which = (\<lambda>name. if name = ''pkexec'' then Some ''/usr/bin/pkexec'' else None),
      path_exists = (\<lambda>path. path = ''/home/u/disk.img''),
      os_open = (\<lambda>path flags. if path = ''/dev/sdb'' then Inr 3 else Inl OSError),
      os_close = (\<lambda>fd. None),
      subprocess_run =
        (\<lambda>argv. if argv = [''lsblk'', ''/dev/sdb''] then Inr lsblk_sdb
                else if argv = [''lsblk'', ''-b'', ''-dn'', ''-o'', ''SIZE'', ''/dev/sdb'']
                then Inr (''2147483648'' @ [NL])
                else Inr [NL]),
      warning_reply = (\<lambda>message. Ok),
      popen = (\<lambda>cmd. Inr \<lparr>stderr_lines = [progress_line @ [NL]], decode_error = False,
                          returncode = 0\<rparr>)\<rparr>"

text \<open>The \<open>dd\<close> of this world fails: it writes an error line and exits with status 1.\<close>

definition env_dd_fails :: env where
  "env_dd_fails =
     env_pkexec\<lparr>popen :=
       (\<lambda>cmd. Inr \<lparr>stderr_lines = [''dd: error writing /dev/sdb: Input/output error'' @ [NL]],
                   decode_error = False, returncode = 1\<rparr>)\<rparr>"

text \<open>The command \<open>start_dd\<close> builds in the world \<open>env_pkexec\<close> from \<open>gui_sdb\<close>.\<close>

definition cmd_sdb :: "string list" where
  "cmd_sdb = [''pkexec'', ''dd'', ''if=/home/u/disk.img'', ''of=/dev/sdb'', ''bs=512k'',
              ''oflag=sync'', ''status=progress'']"

text \<open>Worlds in which the exclusive open of the device fails.\<close>

definition env_no_permission :: env where
  "env_no_permission = env_pkexec\<lparr>os_open := (\<lambda>path flags. Inl PermissionError)\<rparr>"

definition env_busy :: env where
  "env_busy = env_pkexec\<lparr>os_open := (\<lambda>path flags. Inl OSError)\<rparr>"

text \<open>
  A source path with a blank and shell metacharacters in it, and a world in which that
  file exists.
\<close>

definition gui_crafted :: DDGui where
  "gui_crafted = gui_sdb\<lparr>input_edit := ''/tmp/a b; reboot #.img''\<rparr>"

definition env_crafted :: env where
  "env_crafted = env_pkexec\<lparr>path_exists := (\<lambda>path. path = ''/tmp/a b; reboot #.img'')\<rparr>"

text \<open>
  A world with \<open>smartctl\<close> installed and an operator who clicks Cancel, and a world in
  which \<open>/dev/sdb\<close> has a partition mounted on \<open>/mnt/usb\<close>.
\<close>

definition env_smart :: env where
  "env_smart =
     env_pkexec\<lparr>
       which := (\<lambda>name. if name = ''smartctl'' then Some ''/usr/sbin/smartctl''
                         else which env_pkexec name),
       subprocess_run :=
         (\<lambda>argv. if argv = [''smartctl'', ''-i'', ''/dev/sdb'']
                  then Inr (''Device Model: USB Flash'' @ [NL])
                  else subprocess_run env_pkexec argv),
       warning_reply := (\<lambda>message. Cancel)\<rparr>"

definition mounted_sdb :: string where
  "mounted_sdb = NL # ''/mnt/usb'' @ [NL]"

definition env_mounted :: env where
  "env_mounted =
     env_pkexec\<lparr>
       subprocess_run :=
         (\<lambda>argv. if argv = [''lsblk'', ''-n'', ''-o'', ''MOUNTPOINT'', ''/dev/sdb'']
                  then Inr mounted_sdb
                  else subprocess_run env_pkexec argv)\<rparr>"

section \<open>Properties\<close>

subsection \<open>Strings\<close>

lemma strip_empty_iff: "strip s = [] \<longleftrightarrow> (\<forall>c \<in> set s. py_isspace c)"
proof -
  have "(\<forall>c \<in> set (dropWhile py_isspace s). py_isspace c) \<longleftrightarrow> dropWhile py_isspace s = []"
    using hd_dropWhile [of py_isspace s] by (cases "dropWhile py_isspace s") (auto dest: set_dropWhileD)
  then show ?thesis
    by (simp add: strip_def)
qed

lemma py_in_append: "py_in sub (pre @ sub @ post)"
  by (induction pre) (auto simp: neq_Nil_conv, (cases sub; cases post; simp)+)

subsection \<open>The worker and its report\<close>

text \<open>
  C1. The specification asks that a run whose subprocess exits with a non-success status be
  reported as failed and never as completed. In the world \<open>env_dd_fails\<close> the subprocess
  exits with status 1: the worker collects the status with \<open>wait\<close>, drops it and emits
  \<open>finished\<close>, and the only report is the box \<open>Done\<close>, \<open>DD completed successfully.\<close>
\<close>

theorem failed_dd_reported_as_success:
  "DDWorker_run env_dd_fails cmd_sdb = [Popen cmd_sdb False, Wait 1, EmitFinished]
   \<and> fst (deliver_all (DDWorker_run env_dd_fails cmd_sdb) gui_sdb)
       = [MsgInformation ''Done'' ''DD completed successfully.'']"
  by (simp add: DDWorker_run_def env_dd_fails_def env_pkexec_def dd_finished_def)

subsection \<open>The shape of a commit\<close>

lemma exclusive_open_effects:
  "exclusive_open e ofile = (probe, r) \<Longrightarrow>
     probe \<noteq> [] \<and> hd probe = OsOpen ofile [O_WRONLY, O_EXCL] \<and> \<not> list_ex is_spawn probe"
  by (auto simp: exclusive_open_def split: sum.splits)

lemma exclusive_open_passed:
  "exclusive_open e ofile = (probe, None) \<Longrightarrow>
     \<exists>fd. os_open e ofile [O_WRONLY, O_EXCL] = Inr fd \<and> os_close e fd = None
          \<and> probe = [OsOpen ofile [O_WRONLY, O_EXCL], OsClose fd]"
  by (auto simp: exclusive_open_def split: sum.splits)

lemma confirm_effects:
  "confirm_destructive_write e device img = (dialog, r) \<Longrightarrow>
     \<not> list_ex is_spawn dialog \<and> \<not> list_ex is_exclusive_open dialog"
  by (auto simp: confirm_destructive_write_def Let_def split: sum.splits if_splits)

lemma confirm_answered:
  "confirm_destructive_write e device img = (dialog, Inr b) \<Longrightarrow>
     \<exists>lsblk_info smart_info.
       get_lsblk_info e device = Inr lsblk_info \<and> get_smart_info e device = Inr smart_info
       \<and> dialog \<noteq> []
       \<and> last dialog = MsgWarning ''Confirm Disk Write''
            (confirm_message device img lsblk_info smart_info) [Ok, Cancel] Cancel
       \<and> \<not> list_ex is_confirmation (butlast dialog)
       \<and> b = (warning_reply e (confirm_message device img lsblk_info smart_info) = Ok)"
  by (auto simp: confirm_destructive_write_def Let_def split: sum.splits if_splits)

lemma start_dd_spawn:
  assumes "WorkerStart cmd \<in> set (effects (start_dd e s))"
  shows "\<exists>probe dialog.
           path_exists e (strip (input_edit s))
           \<and> exclusive_open e (strip (dev_combo s)) = (probe, None)
           \<and> confirm_destructive_write e (strip (dev_combo s)) (strip (input_edit s))
               = (dialog, Inr True)
           \<and> with_privilege e (dd_cmd (strip (input_edit s)) (strip (dev_combo s)) s) = Some cmd
           \<and> effects (start_dd e s) = probe @ dialog @ [WorkerStart cmd]
           \<and> worker (gui (start_dd e s)) = Some cmd"
proof -
  obtain probe r where p: "exclusive_open e (strip (dev_combo s)) = (probe, r)"
    by (cases "exclusive_open e (strip (dev_combo s))")
  obtain dialog a where
    d: "confirm_destructive_write e (strip (dev_combo s)) (strip (input_edit s)) = (dialog, a)"
    by (cases "confirm_destructive_write e (strip (dev_combo s)) (strip (input_edit s))")
  have np: "WorkerStart cmd \<notin> set probe"
    using exclusive_open_effects [OF p] by (auto simp: list_ex_iff)
  have nd: "WorkerStart cmd \<notin> set dialog"
    using confirm_effects [OF d] by (auto simp: list_ex_iff)
  show ?thesis
    using assms np nd
    by (auto simp: start_dd_def Let_def p d
             split: if_splits option.splits py_exc.splits sum.splits bool.splits)
qed

lemma strip_input_sdb: "strip (input_edit gui_sdb) = ''/home/u/disk.img''"
  by (simp add: gui_sdb_def init_gui_def strip_def py_isspace_def)

lemma strip_dev_sdb: "strip (dev_combo gui_sdb) = ''/dev/sdb''"
  by (simp add: gui_sdb_def init_gui_def strip_def py_isspace_def)

lemma strip_lsblk_sdb: "strip lsblk_sdb = ''sdb 8:16 1 2G 0 disk''"
  by (simp add: lsblk_sdb_def strip_def py_isspace_def)

lemma start_dd_env_pkexec:
  "effects (start_dd env_pkexec gui_sdb)
     = [OsOpen ''/dev/sdb'' [O_WRONLY, O_EXCL], OsClose 3,
        SubprocessRun [''lsblk'', ''/dev/sdb''],
        MsgWarning ''Confirm Disk Write''
          (confirm_message ''/dev/sdb'' ''/home/u/disk.img'' ''sdb 8:16 1 2G 0 disk'' None)
          [Ok, Cancel] Cancel,
        WorkerStart cmd_sdb]"
  by (simp add: start_dd_def strip_input_sdb strip_dev_sdb strip_lsblk_sdb Let_def
        exclusive_open_def confirm_destructive_write_def get_lsblk_info_def
        get_smart_info_def with_privilege_def is_root_def has_sudo_def has_doas_def
        has_pkexec_def dd_cmd_def cmd_sdb_def env_pkexec_def)
    (simp add: gui_sdb_def init_gui_def)

subsection \<open>The exclusive open of the target\<close>

text \<open>
  C2. A commit whose source image exists opens the target device with
  \<open>O_WRONLY | O_EXCL\<close> first. When that open raises \<open>PermissionError\<close> the commit
  shows the box \<open>Permission Error\<close> and stops; when it raises any other \<open>OSError\<close> the
  commit shows the different box \<open>Device Busy\<close> and stops. In both cases nothing else is
  done: no command is built, no worker is started, and the state is unchanged.
\<close>

theorem start_dd_exclusive_open_fails:
  assumes "path_exists e (strip (input_edit s))"
  shows "case os_open e (strip (dev_combo s)) [O_WRONLY, O_EXCL] of
           Inl PermissionError \<Rightarrow>
             start_dd e s =
               \<lparr>effects = [OsOpen (strip (dev_combo s)) [O_WRONLY, O_EXCL],
                           MsgCritical ''Permission Error'' ''Requires root privileges.''],
                raised = None, gui = s\<rparr>
         | Inl OSError \<Rightarrow>
             start_dd e s =
               \<lparr>effects = [OsOpen (strip (dev_combo s)) [O_WRONLY, O_EXCL],
                           MsgCritical ''Device Busy'' ''Target device is mounted or in use.''],
                raised = None, gui = s\<rparr>
         | Inr fd \<Rightarrow>
             take 2 (effects (start_dd e s))
               = [OsOpen (strip (dev_combo s)) [O_WRONLY, O_EXCL], OsClose fd]"
  using assms
  by (simp add: start_dd_def exclusive_open_def Let_def
           split: sum.splits py_exc.splits option.splits prod.splits bool.splits)

theorem start_dd_exclusive_open_fails_witness:
  "path_exists env_no_permission (strip (input_edit gui_sdb))
   \<and> start_dd env_no_permission gui_sdb =
       \<lparr>effects = [OsOpen ''/dev/sdb'' [O_WRONLY, O_EXCL],
                   MsgCritical ''Permission Error'' ''Requires root privileges.''],
        raised = None, gui = gui_sdb\<rparr>
   \<and> path_exists env_busy (strip (input_edit gui_sdb))
   \<and> start_dd env_busy gui_sdb =
       \<lparr>effects = [OsOpen ''/dev/sdb'' [O_WRONLY, O_EXCL],
                   MsgCritical ''Device Busy'' ''Target device is mounted or in use.''],
        raised = None, gui = gui_sdb\<rparr>"
proof -
  have a: "path_exists env_no_permission (strip (input_edit gui_sdb))"
    by (simp add: strip_input_sdb env_no_permission_def env_pkexec_def)
  have b: "path_exists env_busy (strip (input_edit gui_sdb))"
    by (simp add: strip_input_sdb env_busy_def env_pkexec_def)
  show ?thesis
    using a b start_dd_exclusive_open_fails [OF a] start_dd_exclusive_open_fails [OF b]
    by (simp add: strip_dev_sdb env_no_permission_def env_busy_def)
qed

text \<open>
  C3 as the specification states it: between the confirmation box and the start of the worker there is an
  exclusive open of the target. The commit of \<open>gui_sdb\<close> in the world \<open>env_pkexec\<close>
  starts the worker, and its only exclusive open comes before the confirmation box.
\<close>

theorem no_probe_after_confirmation:
  "effects (start_dd env_pkexec gui_sdb)
     = [OsOpen ''/dev/sdb'' [O_WRONLY, O_EXCL], OsClose 3,
        SubprocessRun [''lsblk'', ''/dev/sdb''],
        MsgWarning ''Confirm Disk Write''
          (confirm_message ''/dev/sdb'' ''/home/u/disk.img'' ''sdb 8:16 1 2G 0 disk'' None)
          [Ok, Cancel] Cancel,
        WorkerStart cmd_sdb]
   \<and> \<not> probe_after_confirmation (effects (start_dd env_pkexec gui_sdb))"
  by (simp add: start_dd_env_pkexec probe_after_confirmation_def
        between_confirmation_and_spawn_def)

text \<open>
  C3, amended. The exclusive open is done once in a commit, before the confirmation:
  whenever \<open>start_dd\<close> starts a worker, its effects are a successful exclusive open of
  the target and its close, then the effects of the confirmation, which end with the
  confirmation box answered OK and hold no exclusive open, then the start of the worker.
\<close>

theorem spawn_after_probe_then_confirmation:
  assumes "WorkerStart cmd \<in> set (effects (start_dd e s))"
  shows "\<exists>fd dialog.
           os_open e (strip (dev_combo s)) [O_WRONLY, O_EXCL] = Inr fd
           \<and> os_close e fd = None
           \<and> effects (start_dd e s)
               = [OsOpen (strip (dev_combo s)) [O_WRONLY, O_EXCL], OsClose fd]
                 @ dialog @ [WorkerStart cmd]
           \<and> dialog \<noteq> [] \<and> is_confirmation (last dialog)
           \<and> \<not> list_ex is_exclusive_open dialog
           \<and> \<not> list_ex is_spawn dialog
           \<and> snd (confirm_destructive_write e (strip (dev_combo s)) (strip (input_edit s)))
               = Inr True"
proof -
  from start_dd_spawn [OF assms] obtain probe dialog where
    p: "exclusive_open e (strip (dev_combo s)) = (probe, None)" and
    d: "confirm_destructive_write e (strip (dev_combo s)) (strip (input_edit s))
          = (dialog, Inr True)" and
    effs: "effects (start_dd e s) = probe @ dialog @ [WorkerStart cmd]"
    by blast
  from exclusive_open_passed [OF p] obtain fd where
    fd: "os_open e (strip (dev_combo s)) [O_WRONLY, O_EXCL] = Inr fd" "os_close e fd = None"
        "probe = [OsOpen (strip (dev_combo s)) [O_WRONLY, O_EXCL], OsClose fd]"
    by blast
  from confirm_answered [OF d] have "dialog \<noteq> []" "is_confirmation (last dialog)"
    by auto
  with confirm_effects [OF d] fd effs d show ?thesis
    by auto
qed

theorem spawn_after_probe_then_confirmation_witness:
  "WorkerStart cmd_sdb \<in> set (effects (start_dd env_pkexec gui_sdb))
   \<and> (\<exists>fd dialog.
         os_open env_pkexec (strip (dev_combo gui_sdb)) [O_WRONLY, O_EXCL] = Inr fd
         \<and> os_close env_pkexec fd = None
         \<and> effects (start_dd env_pkexec gui_sdb)
             = [OsOpen (strip (dev_combo gui_sdb)) [O_WRONLY, O_EXCL], OsClose fd]
               @ dialog @ [WorkerStart cmd_sdb]
         \<and> dialog \<noteq> [] \<and> is_confirmation (last dialog)
         \<and> \<not> list_ex is_exclusive_open dialog
         \<and> \<not> list_ex is_spawn dialog
         \<and> snd (confirm_destructive_write env_pkexec (strip (dev_combo gui_sdb))
                  (strip (input_edit gui_sdb)))
             = Inr True)"
proof -
  have a: "WorkerStart cmd_sdb \<in> set (effects (start_dd env_pkexec gui_sdb))"
    by (simp add: start_dd_env_pkexec)
  show ?thesis
    using a spawn_after_probe_then_confirmation [OF a] by blast
qed

subsection \<open>A commit while a write is running\<close>

lemma start_dd_same_inputs:
  assumes "input_edit s' = input_edit s" "dev_combo s' = dev_combo s"
    "bs_combo s' = bs_combo s" "sync_checkbox s' = sync_checkbox s"
    "progress_checkbox s' = progress_checkbox s"
  shows "effects (start_dd e s') = effects (start_dd e s)
         \<and> raised (start_dd e s') = raised (start_dd e s)"
proof -
  obtain probe r where p: "exclusive_open e (strip (dev_combo s)) = (probe, r)"
    by (cases "exclusive_open e (strip (dev_combo s))")
  obtain dialog a where
    d: "confirm_destructive_write e (strip (dev_combo s)) (strip (input_edit s)) = (dialog, a)"
    by (cases "confirm_destructive_write e (strip (dev_combo s)) (strip (input_edit s))")
  have c: "dd_cmd (strip (input_edit s)) (strip (dev_combo s)) s'
             = dd_cmd (strip (input_edit s)) (strip (dev_combo s)) s"
    by (simp add: dd_cmd_def assms)
  show ?thesis
    by (simp add: start_dd_def Let_def assms p d c
             split: option.splits py_exc.splits sum.splits bool.splits)
qed

lemma start_dd_keeps_inputs:
  "input_edit (gui (start_dd e s)) = input_edit s
   \<and> dev_combo (gui (start_dd e s)) = dev_combo s
   \<and> bs_combo (gui (start_dd e s)) = bs_combo s
   \<and> sync_checkbox (gui (start_dd e s)) = sync_checkbox s
   \<and> progress_checkbox (gui (start_dd e s)) = progress_checkbox s"
proof -
  obtain probe r where p: "exclusive_open e (strip (dev_combo s)) = (probe, r)"
    by (cases "exclusive_open e (strip (dev_combo s))")
  obtain dialog a where
    d: "confirm_destructive_write e (strip (dev_combo s)) (strip (input_edit s)) = (dialog, a)"
    by (cases "confirm_destructive_write e (strip (dev_combo s)) (strip (input_edit s))")
  show ?thesis
    by (simp add: start_dd_def Let_def p d
             split: option.splits py_exc.splits sum.splits bool.splits)
qed

lemma start_dd_env_pkexec_worker:
  "worker (gui (start_dd env_pkexec gui_sdb)) = Some cmd_sdb"
proof -
  have "WorkerStart cmd_sdb \<in> set (effects (start_dd env_pkexec gui_sdb))"
    by (simp add: start_dd_env_pkexec)
  from start_dd_spawn [OF this] show ?thesis
    by blast
qed

text \<open>
  C4 as the specification states it: a commit request made while a write is running is rejected. The commit
  of \<open>gui_sdb\<close> in the world \<open>env_pkexec\<close> starts a worker for \<open>cmd_sdb\<close>; a second
  commit on the state it leaves, with no \<open>finished\<close> signal delivered in between, passes
  the same checks and starts a second worker for the same command.
\<close>

theorem second_commit_starts_second_worker:
  "list_ex is_spawn (effects (start_dd env_pkexec gui_sdb))
   \<and> worker (gui (start_dd env_pkexec gui_sdb)) = Some cmd_sdb
   \<and> effects (start_dd env_pkexec (gui (start_dd env_pkexec gui_sdb)))
       = [OsOpen ''/dev/sdb'' [O_WRONLY, O_EXCL], OsClose 3,
          SubprocessRun [''lsblk'', ''/dev/sdb''],
          MsgWarning ''Confirm Disk Write''
            (confirm_message ''/dev/sdb'' ''/home/u/disk.img'' ''sdb 8:16 1 2G 0 disk'' None)
            [Ok, Cancel] Cancel,
          WorkerStart cmd_sdb]"
proof -
  have "effects (start_dd env_pkexec (gui (start_dd env_pkexec gui_sdb)))
          = effects (start_dd env_pkexec gui_sdb)"
    using start_dd_same_inputs start_dd_keeps_inputs by blast
  then show ?thesis
    by (simp add: start_dd_env_pkexec start_dd_env_pkexec_worker)
qed

text \<open>
  C4, amended. \<open>start_dd\<close> keeps no record of a running write that it would consult:
  a commit request on the state an earlier commit has left, in any world, performs the
  effects and raises the exception that a first commit of the same selections performs
  and raises there. It is rejected when one of the checks of a first commit fails (source
  missing, exclusive open, confirmation, privilege resolution) and starts a worker
  otherwise.
\<close>

theorem commit_while_running_as_first_commit:
  "effects (start_dd e' (gui (start_dd e s))) = effects (start_dd e' s)
   \<and> raised (start_dd e' (gui (start_dd e s))) = raised (start_dd e' s)"
  using start_dd_same_inputs start_dd_keeps_inputs by blast

subsection \<open>Privilege resolution and the copy command\<close>

text \<open>
  C6. In a commit that has passed the source check, the exclusive open and the
  confirmation, the command \<open>cmd\<close> built from the selections is started as it is when
  the effective user id is 0; otherwise with \<open>sudo\<close> in front when \<open>sudo\<close> is found,
  else with \<open>doas\<close> when \<open>doas\<close> is found, else with \<open>pkexec\<close> when \<open>pkexec\<close> is
  found; when none is found the commit shows the box \<open>Privileges\<close> instead, and that is
  the only case in which no worker is started.
\<close>

theorem privilege_resolution_order:
  assumes "path_exists e (strip (input_edit s))"
    and "exclusive_open e (strip (dev_combo s)) = (probe, None)"
    and "confirm_destructive_write e (strip (dev_combo s)) (strip (input_edit s))
           = (dialog, Inr True)"
    and "cmd = dd_cmd (strip (input_edit s)) (strip (dev_combo s)) s"
  shows "effects (start_dd e s)
           = probe @ dialog
             @ [if geteuid e = 0 then WorkerStart cmd
                else if which e ''sudo'' \<noteq> None then WorkerStart (''sudo'' # cmd)
                else if which e ''doas'' \<noteq> None then WorkerStart (''doas'' # cmd)
                else if which e ''pkexec'' \<noteq> None then WorkerStart (''pkexec'' # cmd)
                else MsgCritical ''Privileges'' ''Run as root or install sudo/doas.'']
         \<and> (\<not> list_ex is_spawn (effects (start_dd e s)))
             = (geteuid e \<noteq> 0 \<and> which e ''sudo'' = None \<and> which e ''doas'' = None
                \<and> which e ''pkexec'' = None)"
proof -
  have np: "\<not> list_ex is_spawn probe"
    using exclusive_open_effects [OF assms(2)] by simp
  have nd: "\<not> list_ex is_spawn dialog"
    using confirm_effects [OF assms(3)] by simp
  show ?thesis
    using assms np nd
    by (simp add: start_dd_def Let_def with_privilege_def is_root_def has_sudo_def
          has_doas_def has_pkexec_def)
qed

theorem privilege_resolution_order_witness:
  "path_exists env_pkexec (strip (input_edit gui_sdb))
   \<and> exclusive_open env_pkexec (strip (dev_combo gui_sdb))
       = ([OsOpen ''/dev/sdb'' [O_WRONLY, O_EXCL], OsClose 3], None)
   \<and> geteuid env_pkexec \<noteq> 0 \<and> which env_pkexec ''sudo'' = None
   \<and> which env_pkexec ''doas'' = None \<and> which env_pkexec ''pkexec'' \<noteq> None
   \<and> last (effects (start_dd env_pkexec gui_sdb))
       = WorkerStart [''pkexec'', ''dd'', ''if=/home/u/disk.img'', ''of=/dev/sdb'',
                      ''bs=512k'', ''oflag=sync'', ''status=progress'']"
proof -
  have a: "path_exists env_pkexec (strip (input_edit gui_sdb))"
    by (simp add: strip_input_sdb env_pkexec_def)
  have b: "exclusive_open env_pkexec (strip (dev_combo gui_sdb))
             = ([OsOpen ''/dev/sdb'' [O_WRONLY, O_EXCL], OsClose 3], None)"
    by (simp add: strip_dev_sdb exclusive_open_def env_pkexec_def)
  have c: "confirm_destructive_write env_pkexec (strip (dev_combo gui_sdb))
             (strip (input_edit gui_sdb))
           = ([SubprocessRun [''lsblk'', ''/dev/sdb''],
               MsgWarning ''Confirm Disk Write''
                 (confirm_message ''/dev/sdb'' ''/home/u/disk.img''
                    ''sdb 8:16 1 2G 0 disk'' None)
                 [Ok, Cancel] Cancel],
              Inr True)"
    by (simp add: strip_input_sdb strip_dev_sdb strip_lsblk_sdb confirm_destructive_write_def
          get_lsblk_info_def get_smart_info_def Let_def env_pkexec_def)
  have d: "dd_cmd (strip (input_edit gui_sdb)) (strip (dev_combo gui_sdb)) gui_sdb
           = [''dd'', ''if=/home/u/disk.img'', ''of=/dev/sdb'', ''bs=512k'',
              ''oflag=sync'', ''status=progress'']"
    by (simp add: strip_input_sdb strip_dev_sdb dd_cmd_def) (simp add: gui_sdb_def init_gui_def)
  have w: "geteuid env_pkexec \<noteq> 0 \<and> which env_pkexec ''sudo'' = None
           \<and> which env_pkexec ''doas'' = None \<and> which env_pkexec ''pkexec'' \<noteq> None"
    by (simp add: env_pkexec_def)
  show ?thesis
    using a b w privilege_resolution_order [OF a b c d [symmetric]]
    by simp
qed

text \<open>
  C7. Every command for which \<open>start_dd\<close> starts a worker is a list of separate
  arguments: at most one of the prefixes \<open>sudo\<close>, \<open>doas\<close>, \<open>pkexec\<close>, then \<open>dd\<close>,
  \<open>if=\<close> with the source path, \<open>of=\<close> with the target path, \<open>bs=\<close> with the block size,
  then \<open>oflag=sync\<close> when the sync box is checked and \<open>status=progress\<close> when the
  progress box is checked. Whatever the paths contain, each is inside one argument. The
  worker hands that list to \<open>Popen\<close> as it received it, with \<open>shell=False\<close>.
\<close>

theorem copy_command_is_argument_list:
  assumes "WorkerStart cmd \<in> set (effects (start_dd e s))"
  shows "(\<exists>pre. pre \<in> {[], [''sudo''], [''doas''], [''pkexec'']}
            \<and> cmd = pre
                 @ [''dd'', ''if='' @ strip (input_edit s), ''of='' @ strip (dev_combo s),
                    ''bs='' @ bs_combo s]
                 @ (if sync_checkbox s then [''oflag=sync''] else [])
                 @ (if progress_checkbox s then [''status=progress''] else []))
         \<and> worker (gui (start_dd e s)) = Some cmd
         \<and> hd (DDWorker_run e' cmd) = Popen cmd False"
proof -
  define base where "base = dd_cmd (strip (input_edit s)) (strip (dev_combo s)) s"
  from start_dd_spawn [OF assms] have
    p: "with_privilege e base = Some cmd"
    and w: "worker (gui (start_dd e s)) = Some cmd"
    unfolding base_def by blast+
  have b: "base = [''dd'', ''if='' @ strip (input_edit s), ''of='' @ strip (dev_combo s),
                   ''bs='' @ bs_combo s]
                  @ (if sync_checkbox s then [''oflag=sync''] else [])
                  @ (if progress_checkbox s then [''status=progress''] else [])"
    unfolding base_def dd_cmd_def by (rule refl)
  have "cmd = [] @ base \<or> cmd = [''sudo''] @ base \<or> cmd = [''doas''] @ base
        \<or> cmd = [''pkexec''] @ base"
    using p by (simp add: with_privilege_def split: if_splits)
  then have "\<exists>pre. pre \<in> {[], [''sudo''], [''doas''], [''pkexec'']} \<and> cmd = pre @ base"
    by (elim disjE) (rule exI, rule conjI [rotated], assumption, simp)+
  moreover have "hd (DDWorker_run e' cmd) = Popen cmd False"
    by (simp add: DDWorker_run_def split: sum.splits)
  ultimately show ?thesis
    using w unfolding b by blast
qed

lemma start_dd_env_crafted:
  "effects (start_dd env_crafted gui_crafted)
     = [OsOpen ''/dev/sdb'' [O_WRONLY, O_EXCL], OsClose 3,
        SubprocessRun [''lsblk'', ''/dev/sdb''],
        MsgWarning ''Confirm Disk Write''
          (confirm_message ''/dev/sdb'' ''/tmp/a b; reboot #.img'' ''sdb 8:16 1 2G 0 disk'' None)
          [Ok, Cancel] Cancel,
        WorkerStart [''pkexec'', ''dd'', ''if=/tmp/a b; reboot #.img'', ''of=/dev/sdb'',
                     ''bs=512k'', ''oflag=sync'', ''status=progress'']]"
proof -
  have i: "strip (input_edit gui_crafted) = ''/tmp/a b; reboot #.img''"
    by (simp add: gui_crafted_def strip_def py_isspace_def)
  have d: "strip (dev_combo gui_crafted) = ''/dev/sdb''"
    by (simp add: gui_crafted_def gui_sdb_def init_gui_def strip_def py_isspace_def)
  show ?thesis
    by (simp add: start_dd_def i d strip_lsblk_sdb Let_def
          exclusive_open_def confirm_destructive_write_def get_lsblk_info_def
          get_smart_info_def with_privilege_def is_root_def has_sudo_def has_doas_def
          has_pkexec_def dd_cmd_def env_crafted_def env_pkexec_def)
      (simp add: gui_crafted_def gui_sdb_def init_gui_def)
qed

theorem copy_command_is_argument_list_witness:
  "WorkerStart [''pkexec'', ''dd'', ''if=/tmp/a b; reboot #.img'', ''of=/dev/sdb'',
                ''bs=512k'', ''oflag=sync'', ''status=progress'']
     \<in> set (effects (start_dd env_crafted gui_crafted))
   \<and> worker (gui (start_dd env_crafted gui_crafted))
       = Some [''pkexec'', ''dd'', ''if=/tmp/a b; reboot #.img'', ''of=/dev/sdb'',
               ''bs=512k'', ''oflag=sync'', ''status=progress'']
   \<and> hd (DDWorker_run env_crafted
            [''pkexec'', ''dd'', ''if=/tmp/a b; reboot #.img'', ''of=/dev/sdb'',
             ''bs=512k'', ''oflag=sync'', ''status=progress''])
       = Popen [''pkexec'', ''dd'', ''if=/tmp/a b; reboot #.img'', ''of=/dev/sdb'',
                ''bs=512k'', ''oflag=sync'', ''status=progress''] False"
proof -
  have a: "WorkerStart [''pkexec'', ''dd'', ''if=/tmp/a b; reboot #.img'', ''of=/dev/sdb'',
                        ''bs=512k'', ''oflag=sync'', ''status=progress'']
             \<in> set (effects (start_dd env_crafted gui_crafted))"
    by (simp add: start_dd_env_crafted)
  show ?thesis
    using a copy_command_is_argument_list [OF a, of env_crafted] by blast
qed

subsection \<open>The confirmation\<close>

lemma py_in_here: "py_in sub (sub @ post)"
  using py_in_append [of sub "[]" post] by simp

lemma py_in_Cons: "py_in sub ys \<Longrightarrow> py_in sub (y # ys)"
  by simp

lemma py_in_skip: "py_in sub ys \<Longrightarrow> py_in sub (xs @ ys)"
  by (induction xs) simp_all

lemma confirm_message_shows:
  "py_in device (confirm_message device img lsblk_info smart_info)
   \<and> py_in lsblk_info (confirm_message device img lsblk_info smart_info)
   \<and> py_in img (confirm_message device img lsblk_info smart_info)
   \<and> (case smart_info of
         None \<Rightarrow> True
       | Some info \<Rightarrow> py_in info (confirm_message device img lsblk_info smart_info))"
proof -
  have d: "py_in device (confirm_message device img lsblk_info smart_info)"
    unfolding confirm_message_def Let_def
    by (rule py_in_here | rule py_in_Cons | rule py_in_skip)+
  have l: "py_in lsblk_info (confirm_message device img lsblk_info smart_info)"
    unfolding confirm_message_def Let_def
    by (rule py_in_here | rule py_in_Cons | rule py_in_skip)+
  have i: "py_in img (confirm_message device img lsblk_info smart_info)"
    unfolding confirm_message_def Let_def
    by (rule py_in_here | rule py_in_Cons | rule py_in_skip)+
  have h: "py_in info (confirm_message device img lsblk_info (Some info))" for info
  proof (cases "info = []")
    case True
    then show ?thesis
      using py_in_here [of "[]"] by simp
  next
    case False
    show ?thesis
      unfolding confirm_message_def Let_def option.case if_P [OF False] append_assoc
        append_Cons append_Nil
      by (rule py_in_here | rule py_in_Cons | rule py_in_skip)+
  qed
  from d l i h show ?thesis
    by (simp split: option.splits)
qed

text \<open>
  C8. When the partition layout and the health summary have been read, the
  confirmation shows one warning box whose message holds the target device, the layout
  text, the health text when there is one, and the source image; the buttons are OK and
  Cancel and the default button is Cancel; the result is acceptance exactly when the
  reply is OK, so Cancel and a box closed without a choice give a rejection.
\<close>

theorem confirmation_gate:
  assumes "get_lsblk_info e device = Inr layout"
    and "get_smart_info e device = Inr health"
  shows "\<exists>message.
           last (fst (confirm_destructive_write e device img))
             = MsgWarning ''Confirm Disk Write'' message [Ok, Cancel] Cancel
           \<and> length (filter is_confirmation (fst (confirm_destructive_write e device img))) = 1
           \<and> py_in device message \<and> py_in layout message \<and> py_in img message
           \<and> (case health of None \<Rightarrow> True | Some info \<Rightarrow> py_in info message)
           \<and> snd (confirm_destructive_write e device img)
               = Inr (warning_reply e message = Ok)
           \<and> (snd (confirm_destructive_write e device img) = Inr True)
               = (warning_reply e message \<noteq> Cancel \<and> warning_reply e message \<noteq> NoButton)"
proof -
  have ne: "(b = Ok) = (b \<noteq> Cancel \<and> b \<noteq> NoButton)" for b
    by (cases b) simp_all
  have "last (fst (confirm_destructive_write e device img))
          = MsgWarning ''Confirm Disk Write'' (confirm_message device img layout health)
              [Ok, Cancel] Cancel
        \<and> length (filter is_confirmation (fst (confirm_destructive_write e device img))) = 1
        \<and> snd (confirm_destructive_write e device img)
            = Inr (warning_reply e (confirm_message device img layout health) = Ok)"
    by (simp add: confirm_destructive_write_def assms Let_def)
  with confirm_message_shows [of device img layout health] ne show ?thesis
    by (intro exI [of _ "confirm_message device img layout health"]) simp
qed

theorem confirmation_gate_witness:
  "get_lsblk_info env_smart ''/dev/sdb'' = Inr ''sdb 8:16 1 2G 0 disk''
   \<and> get_smart_info env_smart ''/dev/sdb'' = Inr (Some ''Device Model: USB Flash'')
   \<and> (\<exists>message.
         last (fst (confirm_destructive_write env_smart ''/dev/sdb'' ''/home/u/disk.img''))
           = MsgWarning ''Confirm Disk Write'' message [Ok, Cancel] Cancel
         \<and> py_in ''/dev/sdb'' message \<and> py_in ''sdb 8:16 1 2G 0 disk'' message
         \<and> py_in ''/home/u/disk.img'' message
         \<and> py_in ''Device Model: USB Flash'' message
         \<and> snd (confirm_destructive_write env_smart ''/dev/sdb'' ''/home/u/disk.img'')
             = Inr False)"
proof -
  have s: "strip (''Device Model: USB Flash'' @ [NL]) = ''Device Model: USB Flash''"
    by (simp add: strip_def py_isspace_def)
  have a: "get_lsblk_info env_smart ''/dev/sdb'' = Inr ''sdb 8:16 1 2G 0 disk''"
    by (simp add: get_lsblk_info_def env_smart_def env_pkexec_def strip_lsblk_sdb)
  have b: "get_smart_info env_smart ''/dev/sdb'' = Inr (Some ''Device Model: USB Flash'')"
    using s by (simp add: get_smart_info_def env_smart_def env_pkexec_def)
  have r: "warning_reply env_smart m = Cancel" for m
    by (simp add: env_smart_def)
  from confirmation_gate [OF a b, of "''/home/u/disk.img''"] a b show ?thesis
    by (simp add: r) blast
qed

subsection \<open>Device selection and the two buttons\<close>

text \<open>
  C10. A change of the selection to a text that names a device (not blank) runs the
  mount query \<open>lsblk -n -o MOUNTPOINT\<close> for that device. When the query gives an
  output, the start button is enabled exactly when that output is empty once stripped,
  that is when it holds nothing but whitespace and so no mountpoint, and the unmount
  button exactly when it is not. A click on the start button in the state a query with a
  mountpoint leaves does nothing, in any world.
\<close>

theorem selection_change_sets_buttons:
  assumes "strip text \<noteq> []"
    and "subprocess_run e [''lsblk'', ''-n'', ''-o'', ''MOUNTPOINT'', strip text] = Inr out"
  shows "SubprocessRun [''lsblk'', ''-n'', ''-o'', ''MOUNTPOINT'', strip text]
           \<in> set (effects (on_currentTextChanged e text s))
         \<and> raised (on_currentTextChanged e text s) = None
         \<and> dev_combo (gui (on_currentTextChanged e text s)) = text
         \<and> start_btn_enabled (gui (on_currentTextChanged e text s)) = (strip out = [])
         \<and> unmount_btn_enabled (gui (on_currentTextChanged e text s)) = (strip out \<noteq> [])
         \<and> (strip out = []) = (\<forall>c \<in> set out. py_isspace c)
         \<and> (if strip out \<noteq> []
             then click_start e' (gui (on_currentTextChanged e text s))
                    = \<lparr>effects = [], raised = None, gui = gui (on_currentTextChanged e text s)\<rparr>
             else click_start e' (gui (on_currentTextChanged e text s))
                    = start_dd e' (gui (on_currentTextChanged e text s)))"
  using assms strip_empty_iff [of out]
  by (simp add: on_currentTextChanged_def update_dev_capacity_def get_mounted_partitions_def
        click_start_def Let_def)

theorem selection_change_sets_buttons_witness:
  "strip ''/dev/sdb'' \<noteq> []
   \<and> subprocess_run env_mounted [''lsblk'', ''-n'', ''-o'', ''MOUNTPOINT'', strip ''/dev/sdb'']
       = Inr mounted_sdb
   \<and> \<not> start_btn_enabled (gui (on_currentTextChanged env_mounted ''/dev/sdb'' gui_sdb))
   \<and> unmount_btn_enabled (gui (on_currentTextChanged env_mounted ''/dev/sdb'' gui_sdb))
   \<and> effects (click_start env_pkexec (gui (on_currentTextChanged env_mounted ''/dev/sdb'' gui_sdb)))
       = []
   \<and> subprocess_run env_pkexec [''lsblk'', ''-n'', ''-o'', ''MOUNTPOINT'', strip ''/dev/sdb'']
       = Inr [NL]
   \<and> start_btn_enabled (gui (on_currentTextChanged env_pkexec ''/dev/sdb'' gui_sdb))
   \<and> \<not> unmount_btn_enabled (gui (on_currentTextChanged env_pkexec ''/dev/sdb'' gui_sdb))"
proof -
  have d: "strip ''/dev/sdb'' = ''/dev/sdb''"
    by (simp add: strip_def py_isspace_def)
  have a: "strip ''/dev/sdb'' \<noteq> []"
    by (simp add: d)
  have m: "subprocess_run env_mounted [''lsblk'', ''-n'', ''-o'', ''MOUNTPOINT'', strip ''/dev/sdb'']
             = Inr mounted_sdb"
    by (simp add: d env_mounted_def)
  have u: "subprocess_run env_pkexec [''lsblk'', ''-n'', ''-o'', ''MOUNTPOINT'', strip ''/dev/sdb'']
             = Inr [NL]"
    by (simp add: d env_pkexec_def)
  have sm: "strip mounted_sdb = ''/mnt/usb''"
    by (simp add: mounted_sdb_def strip_def py_isspace_def)
  have su: "strip [NL] = []"
    by (simp add: strip_def py_isspace_def)
  from selection_change_sets_buttons [OF a m, of gui_sdb env_pkexec]
    selection_change_sets_buttons [OF a u, of gui_sdb env_pkexec] a m u
  show ?thesis
    by (simp add: sm su d)
qed

subsection \<open>Progress\<close>

lemma progress_line_has_bytes: "py_in ''bytes'' (progress_line @ [NL])"
  by (simp add: progress_line_def)

lemma strip_progress_line: "strip (progress_line @ [NL]) = progress_line"
  by (simp add: progress_line_def strip_def py_isspace_def)

text \<open>
  C5. The specification asks for a progress event with a percentage, a rate and a time estimate,
  50.0% for 536,870,912 bytes of an image of 1,073,741,824 bytes. In the world
  \<open>env_pkexec\<close> the subprocess writes that progress line and \<open>gui_sdb\<close> holds that image
  size. The worker emits the stripped text of the line, and \<open>update_progress\<close> appends it
  to the progress display and does nothing else: the label still reads
  \<open>Progress: 0% - ETA: N/A\<close> and \<open>last_bytes\<close> and \<open>last_update_time\<close> are still 0.
\<close>

theorem progress_line_only_appended:
  "image_size_bytes gui_sdb = 1073741824
   \<and> DDWorker_run env_pkexec cmd_sdb
       = [Popen cmd_sdb False, EmitProgress progress_line, Wait 0, EmitFinished]
   \<and> gui (update_progress progress_line gui_sdb)
       = gui_sdb\<lparr>progress_display := [progress_line]\<rparr>
   \<and> snd (deliver_all (DDWorker_run env_pkexec cmd_sdb) gui_sdb)
       = gui_sdb\<lparr>progress_display := [progress_line]\<rparr>
   \<and> eta_label (snd (deliver_all (DDWorker_run env_pkexec cmd_sdb) gui_sdb))
       = ''Progress: 0% - ETA: N/A''
   \<and> last_bytes (snd (deliver_all (DDWorker_run env_pkexec cmd_sdb) gui_sdb)) = 0
   \<and> last_update_time (snd (deliver_all (DDWorker_run env_pkexec cmd_sdb) gui_sdb)) = 0"
proof -
  have r: "DDWorker_run env_pkexec cmd_sdb
             = [Popen cmd_sdb False, EmitProgress progress_line, Wait 0, EmitFinished]"
    by (simp add: DDWorker_run_def env_pkexec_def progress_line_has_bytes strip_progress_line)
  have p: "progress_display gui_sdb = []"
    by (simp add: gui_sdb_def init_gui_def)
  have d: "snd (deliver_all (DDWorker_run env_pkexec cmd_sdb) gui_sdb)
             = gui_sdb\<lparr>progress_display := [progress_line]\<rparr>"
    by (simp add: r update_progress_def dd_finished_def p)
  show ?thesis
    unfolding d
    by (simp add: r update_progress_def gui_sdb_def init_gui_def)
qed

end
